theory Spec2Isabelle
  imports Main "HOL-Library.AList" "HOL-Library.Sublist" "HOL-Library.Multiset"
begin

section \<open>Python values\<close>

text \<open>
  A Python \<open>str\<close> is a sequence of Unicode code points, so it is modelled as a list of
  naturals. ASCII literals of the source are written with \<open>ascii\<close>; the Persian keywords
  are given by their code points.
\<close>

type_synonym ustr = "nat list"

definition ascii :: "string \<Rightarrow> ustr" where
  "ascii s = map of_char s"

text \<open>
  \<open>str.isspace\<close>, the characters removed by \<open>str.strip()\<close>: the code points with
  bidirectional class WS, B or S, or general category Zs.
\<close>

definition py_isspace :: "nat \<Rightarrow> bool" where
  "py_isspace c =
     ((9 \<le> c \<and> c \<le> 13) \<or> (28 \<le> c \<and> c \<le> 32) \<or> c = 133 \<or> c = 160 \<or> c = 5760
      \<or> (8192 \<le> c \<and> c \<le> 8202) \<or> c = 8232 \<or> c = 8233 \<or> c = 8239 \<or> c = 8287
      \<or> c = 12288)"

definition py_strip :: "ustr \<Rightarrow> ustr" where
  "py_strip s = rev (dropWhile py_isspace (rev (dropWhile py_isspace s)))"

text \<open>\<open>word in txt\<close> on strings is the contiguous-substring test.\<close>

definition py_in :: "ustr \<Rightarrow> ustr \<Rightarrow> bool" where
  "py_in w t = sublist w t"

text \<open>
  The Python built-ins whose behaviour rests on the Unicode character database, which is
  not part of the repository: \<open>str.lower\<close> and \<open>str.upper\<close> on a string that has a
  non-ASCII character, and \<open>int\<close> on a string (\<open>None\<close> is \<open>ValueError\<close>). On an
  all-ASCII string \<open>lower\<close> and \<open>upper\<close> only move the 26 letters, which is written
  out.
\<close>

record py_runtime =
  unicode_lower :: "ustr \<Rightarrow> ustr"
  unicode_upper :: "ustr \<Rightarrow> ustr"
  str_to_int :: "ustr \<Rightarrow> int option"

definition ascii_lower :: "nat \<Rightarrow> nat" where
  "ascii_lower c = (if 65 \<le> c \<and> c \<le> 90 then c + 32 else c)"

definition ascii_upper :: "nat \<Rightarrow> nat" where
  "ascii_upper c = (if 97 \<le> c \<and> c \<le> 122 then c - 32 else c)"

definition py_lower :: "py_runtime \<Rightarrow> ustr \<Rightarrow> ustr" where
  "py_lower rt s = (if list_all (\<lambda>c. c < 128) s then map ascii_lower s else unicode_lower rt s)"

definition py_upper :: "py_runtime \<Rightarrow> ustr \<Rightarrow> ustr" where
  "py_upper rt s = (if list_all (\<lambda>c. c < 128) s then map ascii_upper s else unicode_upper rt s)"

text \<open>The exceptions that can leave a function of the pipeline.\<close>

datatype py_error = TypeError | ValueError | KeyError

text \<open>
  What a text-classification pipeline may hand back: strings, dicts with string keys,
  lists, and \<open>POther\<close> for any value that is neither (a number, \<open>None\<close>).
\<close>

datatype py_val = PStr ustr | PDict "(ustr \<times> py_val) list" | PList "py_val list" | POther


section \<open>mapping.py\<close>

text \<open>
  \<open>SUPPORTED_MOODS\<close> as mapping.py declares it; the other modules import it from the
  package.
\<close>

definition SUPPORTED_MOODS :: "ustr set" where
  "SUPPORTED_MOODS =
     set (map ascii [''joy'', ''sadness'', ''anger'', ''fear'', ''neutral'', ''excitement''])"

text \<open>The dict literal \<open>LABEL_MAP\<close>, in declaration order (a Python dict iterates in it).\<close>

definition LABEL_MAP :: "(ustr \<times> ustr) list" where
  "LABEL_MAP = map (\<lambda>(k, v). (ascii k, ascii v))
     [(''joy'', ''joy''),
      (''happy'', ''joy''),
      (''happiness'', ''joy''),
      (''love'', ''joy''),
      (''cheerful'', ''joy''),
      (''delighted'', ''joy''),
      (''admiration'', ''joy''),
      (''sad'', ''sadness''),
      (''sadness'', ''sadness''),
      (''grief'', ''sadness''),
      (''sorrow'', ''sadness''),
      (''disappointment'', ''sadness''),
      (''anger'', ''anger''),
      (''angry'', ''anger''),
      (''rage'', ''anger''),
      (''hatred'', ''anger''),
      (''hate'', ''anger''),
      (''annoyance'', ''anger''),
      (''furious'', ''anger''),
      (''fear'', ''fear''),
      (''scared'', ''fear''),
      (''frightened'', ''fear''),
      (''anxious'', ''fear''),
      (''nervous'', ''fear''),
      (''excitement'', ''excitement''),
      (''excited'', ''excitement''),
      (''surprise'', ''excitement''),
      (''surprised'', ''excitement''),
      (''wonder'', ''excitement''),
      (''amazed'', ''excitement''),
      (''enthusiasm'', ''excitement''),
      (''neutral'', ''neutral''),
      (''no emotion'', ''neutral''),
      (''other'', ''neutral'')]"

text \<open>
  \<open>map_label_to_mood(language, label)\<close>: strip and lowercase, direct lookup, then the
  first key of \<open>LABEL_MAP\<close> that is a substring of the normalised label, else neutral.
\<close>

definition map_label_to_mood :: "py_runtime \<Rightarrow> ustr \<Rightarrow> ustr \<Rightarrow> ustr" where
  "map_label_to_mood rt language label =
     (let label_norm = py_lower rt (py_strip label) in
      case map_of LABEL_MAP label_norm of
        Some v \<Rightarrow> v
      | None \<Rightarrow>
          (case find (\<lambda>(key, val). py_in key label_norm) LABEL_MAP of
             Some (key, val) \<Rightarrow> val
           | None \<Rightarrow> ascii ''neutral''))"


section \<open>language.py\<close>

text \<open>
  \<open>LanguageDetector.detect\<close>. The statistical routine \<open>langdetect.detect\<close> is a
  parameter: it returns a language code, or \<open>None\<close> when it raises
  \<open>LangDetectException\<close>.
\<close>

definition supported :: "ustr set" where
  "supported = {ascii ''fa'', ascii ''en''}"

definition persian_pattern :: "nat \<Rightarrow> bool" where
  "persian_pattern c = (1536 \<le> c \<and> c \<le> 1791)"

definition detect :: "(ustr \<Rightarrow> ustr option) \<Rightarrow> ustr \<Rightarrow> ustr" where
  "detect langdetect text =
     (let cleaned = py_strip text in
      if cleaned = [] then ascii ''en''
      else if list_ex persian_pattern cleaned then ascii ''fa''
      else (case langdetect cleaned of
              None \<Rightarrow> ascii ''en''
            | Some lang \<Rightarrow> if lang \<in> supported then lang else ascii ''en''))"


section \<open>emotion\_classifier.py\<close>

definition ENGLISH_LEXICON :: "(ustr \<times> ustr list) list" where
  "ENGLISH_LEXICON = map (\<lambda>(k, ws). (ascii k, map ascii ws))
     [(''joy'', [''happy'', ''joy'', ''grateful'', ''great'', ''awesome'', ''good'', ''love'']),
      (''sadness'', [''sad'', ''down'', ''blue'', ''upset'', ''depressed'', ''cry'']),
      (''anger'', [''angry'', ''mad'', ''furious'', ''irritated'', ''rage'', ''hate'']),
      (''fear'', [''afraid'', ''scared'', ''anxious'', ''worried'', ''nervous'']),
      (''neutral'', [''ok'', ''fine'', ''meh'', ''normal'']),
      (''excitement'', [''excited'', ''hyped'', ''stoked'', ''thrilled'', ''pumped''])]"

definition PERSIAN_LEXICON :: "(ustr \<times> ustr list) list" where
  "PERSIAN_LEXICON =
     [(ascii ''joy'',
       [[1582, 1608, 1588, 1581, 1575, 1604], [1588, 1575, 1583], [1582, 1608, 1576],
        [1593, 1575, 1604, 1740], [1585, 1575, 1590, 1740], [1593, 1588, 1602],
        [1582, 1606, 1583, 1607]]),
      (ascii ''sadness'',
       [[1594, 1605, 1711, 1740, 1606], [1606, 1575, 1585, 1575, 1581, 1578],
        [1576, 1740, 32, 1581, 1608, 1589, 1604, 1607], [1583, 1604, 1711, 1740, 1585],
        [1711, 1585, 1740, 1607], [1594, 1589, 1607], [1576, 1583, 1576, 1582, 1578]]),
      (ascii ''anger'',
       [[1593, 1589, 1576, 1575, 1606, 1740], [1582, 1588, 1605], [1581, 1585, 1589],
        [1705, 1604, 1575, 1601, 1607], [1605, 1578, 1606, 1601, 1585],
        [1583, 1593, 1608, 1575]]),
      (ascii ''fear'',
       [[1605, 1740, 32, 1578, 1585, 1587, 1605], [1578, 1585, 1587],
        [1575, 1587, 1578, 1585, 1587], [1606, 1711, 1585, 1575, 1606],
        [1608, 1581, 1588, 1578]]),
      (ascii ''neutral'',
       [[1605, 1593, 1605, 1608, 1604, 1740], [1576, 1583, 32, 1606, 1740, 1587, 1578],
        [1575, 1608, 1705, 1740], [1606, 1585, 1605, 1575, 1604], [1587, 1604, 1575, 1605]]),
      (ascii ''excitement'',
       [[1607, 1740, 1580, 1575, 1606], [1605, 1578, 1581, 1605, 1587], [1584, 1608, 1602],
        [1575, 1606, 1585, 1688, 1740], [1576, 1575, 1581, 1575, 1604]])]"

text \<open>
  The state of a constructed \<open>TextEmotionClassifier\<close>. A pipeline maps the cleaned text
  to its outputs, or to \<open>None\<close> when the call raises.
\<close>

record TextEmotionClassifier =
  use_transformers :: bool
  pipelines :: "ustr \<rightharpoonup> (ustr \<Rightarrow> py_val option)"
  id2label :: "ustr \<rightharpoonup> (int \<rightharpoonup> ustr)"

record prediction =
  label :: ustr
  mood :: ustr
  source :: ustr

text \<open>\<open>scores[label] += 1\<close> on an insertion-ordered dict; a missing key raises.\<close>

definition dict_incr :: "(ustr \<times> nat) list \<Rightarrow> ustr \<Rightarrow> py_error + (ustr \<times> nat) list" where
  "dict_incr scores k =
     (case map_of scores k of
        None \<Rightarrow> Inl KeyError
      | Some n \<Rightarrow> Inr (AList.update k (n + 1) scores))"

text \<open>The inner loop \<open>for word in keywords\<close> and the outer loop over \<open>lexicon.items()\<close>.\<close>

fun count_keywords ::
  "ustr \<Rightarrow> ustr \<Rightarrow> ustr list \<Rightarrow> (ustr \<times> nat) list \<Rightarrow> py_error + (ustr \<times> nat) list" where
  "count_keywords txt lbl [] scores = Inr scores"
| "count_keywords txt lbl (word # keywords) scores =
     (if py_in word txt
      then (case dict_incr scores lbl of
              Inl e \<Rightarrow> Inl e
            | Inr scores' \<Rightarrow> count_keywords txt lbl keywords scores')
      else count_keywords txt lbl keywords scores)"

fun score_lexicon ::
  "ustr \<Rightarrow> (ustr \<times> ustr list) list \<Rightarrow> (ustr \<times> nat) list \<Rightarrow> py_error + (ustr \<times> nat) list" where
  "score_lexicon txt [] scores = Inr scores"
| "score_lexicon txt ((lbl, keywords) # rest) scores =
     (case count_keywords txt lbl keywords scores of
        Inl e \<Rightarrow> Inl e
      | Inr scores' \<Rightarrow> score_lexicon txt rest scores')"

text \<open>
  \<open>max(items, key=lambda x: x[1])\<close>: the running maximum is replaced only by a strictly
  greater key, so the first maximal item wins.
\<close>

fun py_max_by_snd :: "(ustr \<times> nat) \<Rightarrow> (ustr \<times> nat) list \<Rightarrow> (ustr \<times> nat)" where
  "py_max_by_snd best [] = best"
| "py_max_by_snd best (x # xs) = py_max_by_snd (if snd best < snd x then x else best) xs"

definition lexicon_for :: "ustr \<Rightarrow> (ustr \<times> ustr list) list" where
  "lexicon_for language = (if language = ascii ''fa'' then PERSIAN_LEXICON else ENGLISH_LEXICON)"

definition lexicon_label :: "py_runtime \<Rightarrow> ustr \<Rightarrow> ustr \<Rightarrow> py_error + ustr" where
  "lexicon_label rt text language =
     (let txt = py_lower rt text;
          lexicon = lexicon_for language
      in case score_lexicon txt lexicon (map (\<lambda>(lbl, keywords). (lbl, 0)) lexicon) of
           Inl e \<Rightarrow> Inl e
         | Inr [] \<Rightarrow> Inl ValueError
         | Inr (s # ss) \<Rightarrow>
             (let best_label = fst (py_max_by_snd s ss) in
              case map_of (s # ss) best_label of
                None \<Rightarrow> Inl KeyError
              | Some n \<Rightarrow> if n = 0 then Inr (ascii ''neutral'') else Inr best_label))"

text \<open>
  The count of the specification, to compare the loops with: how many keywords of one
  mood occur as substrings of the text.
\<close>

definition keyword_count :: "ustr \<Rightarrow> ustr list \<Rightarrow> nat" where
  "keyword_count txt keywords = length (filter (\<lambda>word. py_in word txt) keywords)"

text \<open>\<open>label.split("_")[-1]\<close>: what follows the last underscore.\<close>

definition last_segment :: "ustr \<Rightarrow> ustr" where
  "last_segment s = rev (takeWhile (\<lambda>c. c \<noteq> 95) (rev s))"

definition resolve_label :: "py_runtime \<Rightarrow> TextEmotionClassifier \<Rightarrow> ustr \<Rightarrow> ustr \<Rightarrow> ustr" where
  "resolve_label rt clf lbl lang =
     (if prefix (ascii ''LABEL_'') (py_upper rt lbl) then
        (case id2label clf lang of
           None \<Rightarrow> lbl
         | Some table \<Rightarrow>
             (case str_to_int rt (last_segment lbl) of
                None \<Rightarrow> lbl
              | Some idx \<Rightarrow> (case table idx of None \<Rightarrow> lbl | Some l \<Rightarrow> l)))
      else lbl)"

definition resolve_with_lexicon :: "ustr \<Rightarrow> ustr \<Rightarrow> ustr \<Rightarrow> ustr \<Rightarrow> ustr \<times> ustr \<times> ustr" where
  "resolve_with_lexicon tf_label tf_mood lex_label lex_mood =
     (if tf_mood = lex_mood then (tf_label, tf_mood, ascii ''transformer'')
      else if lex_mood \<in> {ascii ''anger'', ascii ''sadness'', ascii ''fear''}
              \<and> tf_mood \<in> {ascii ''neutral'', ascii ''joy'', ascii ''excitement''}
        then (lex_label, lex_mood, ascii ''lexicon_override_neg'')
      else if lex_mood \<in> {ascii ''joy'', ascii ''excitement''}
              \<and> tf_mood \<in> {ascii ''sadness'', ascii ''anger'', ascii ''fear'', ascii ''neutral''}
        then (lex_label, lex_mood, ascii ''lexicon_override_pos'')
      else (tf_label, tf_mood, ascii ''transformer''))"

text \<open>
  Subscripting with \<open>[0]\<close>; \<open>None\<close> is the exception (IndexError, KeyError, TypeError),
  which the \<open>except Exception\<close> of \<open>predict\<close> catches.
\<close>

fun py_index0 :: "py_val \<Rightarrow> py_val option" where
  "py_index0 (PList (x # xs)) = Some x"
| "py_index0 (PStr (c # cs)) = Some (PStr [c])"
| "py_index0 v = None"

text \<open>\<open>outputs[0] if outputs and isinstance(outputs[0], dict) else outputs[0][0]\<close>.\<close>

definition first_result :: "py_val \<Rightarrow> py_val option" where
  "first_result outputs =
     (case py_index0 outputs of
        None \<Rightarrow> None
      | Some (PDict d) \<Rightarrow> Some (PDict d)
      | Some v \<Rightarrow> py_index0 v)"

text \<open>\<open>result.get("label", "neutral") if isinstance(result, dict) else "neutral"\<close>.\<close>

definition raw_label_of :: "py_val \<Rightarrow> py_val" where
  "raw_label_of result =
     (case result of
        PDict d \<Rightarrow> (case map_of d (ascii ''label'') of None \<Rightarrow> PStr (ascii ''neutral'') | Some v \<Rightarrow> v)
      | _ \<Rightarrow> PStr (ascii ''neutral''))"

text \<open>
  The body of the \<open>try\<close> in \<open>predict\<close>; \<open>None\<close> when anything in it raises (a raw label
  that is not a string has no \<open>upper\<close>).
\<close>

definition model_prediction ::
  "py_runtime \<Rightarrow> TextEmotionClassifier \<Rightarrow> (ustr \<Rightarrow> py_val option) \<Rightarrow> ustr \<Rightarrow> ustr \<Rightarrow> ustr \<Rightarrow> ustr
     \<Rightarrow> prediction option" where
  "model_prediction rt clf pipe cleaned language lex_label lex_mood =
     (case pipe cleaned of
        None \<Rightarrow> None
      | Some outputs \<Rightarrow>
          (case first_result outputs of
             None \<Rightarrow> None
           | Some result \<Rightarrow>
               (case raw_label_of result of
                  PStr raw_label \<Rightarrow>
                    (let resolved_label = resolve_label rt clf raw_label language;
                         tf_mood = map_label_to_mood rt language resolved_label;
                         (chosen_label, chosen_mood, src) =
                           resolve_with_lexicon resolved_label tf_mood lex_label lex_mood
                     in Some \<lparr>label = chosen_label, mood = chosen_mood, source = src\<rparr>)
                | _ \<Rightarrow> None)))"

definition predict ::
  "py_runtime \<Rightarrow> TextEmotionClassifier \<Rightarrow> ustr \<Rightarrow> ustr \<Rightarrow> py_error + prediction" where
  "predict rt clf text language =
     (let cleaned = py_strip text in
      if cleaned = [] then
        Inr \<lparr>label = ascii ''neutral'', mood = ascii ''neutral'', source = ascii ''fallback''\<rparr>
      else
        (case lexicon_label rt cleaned language of
           Inl e \<Rightarrow> Inl e
         | Inr lex_label \<Rightarrow>
             (let lex_mood = map_label_to_mood rt language lex_label;
                  lexicon_result = \<lparr>label = lex_label, mood = lex_mood, source = ascii ''lexicon''\<rparr>
              in if use_transformers clf then
                   (case pipelines clf language of
                      None \<Rightarrow> Inr lexicon_result
                    | Some pipe \<Rightarrow>
                        (case model_prediction rt clf pipe cleaned language lex_label lex_mood of
                           None \<Rightarrow> Inr lexicon_result
                         | Some p \<Rightarrow> Inr p))
                 else Inr lexicon_result)))"


section \<open>recommender.py\<close>

text \<open>
  A catalog item is a dict read from JSON: an association list from keys to string
  values, read with \<open>map_of\<close> (\<open>item.get\<close>). \<open>Recommendation\<close> is the dataclass; its
  fields carry the prefix \<open>rec_\<close> to keep them apart from those of \<open>prediction\<close>.
\<close>

type_synonym item = "(ustr \<times> ustr) list"

record Recommendation =
  rec_title :: ustr
  rec_creator :: ustr
  rec_type :: ustr
  rec_mood :: ustr
  rec_language :: ustr

definition Recommendation_fields :: "ustr list" where
  "Recommendation_fields = map ascii [''title'', ''creator'', ''type'', ''mood'', ''language'']"

text \<open>
  \<open>Recommendation(**item)\<close>: the dataclass has no default, so a missing key and an
  unexpected key both raise \<open>TypeError\<close>.
\<close>

definition make_Recommendation :: "item \<Rightarrow> py_error + Recommendation" where
  "make_Recommendation item =
     (if set (map fst item) = set Recommendation_fields then
        (case map_of item (ascii ''title'') of None \<Rightarrow> Inl TypeError | Some t \<Rightarrow>
        (case map_of item (ascii ''creator'') of None \<Rightarrow> Inl TypeError | Some c \<Rightarrow>
        (case map_of item (ascii ''type'') of None \<Rightarrow> Inl TypeError | Some ty \<Rightarrow>
        (case map_of item (ascii ''mood'') of None \<Rightarrow> Inl TypeError | Some m \<Rightarrow>
        (case map_of item (ascii ''language'') of None \<Rightarrow> Inl TypeError | Some l \<Rightarrow>
           Inr \<lparr>rec_title = t, rec_creator = c, rec_type = ty, rec_mood = m,
                rec_language = l\<rparr>)))))
      else Inl TypeError)"

text \<open>\<open>[Recommendation(**item) for item in picks]\<close> stops at the first item that raises.\<close>

fun make_all :: "item list \<Rightarrow> py_error + Recommendation list" where
  "make_all [] = Inr []"
| "make_all (item # items) =
     (case make_Recommendation item of
        Inl e \<Rightarrow> Inl e
      | Inr r \<Rightarrow> (case make_all items of Inl e \<Rightarrow> Inl e | Inr rs \<Rightarrow> Inr (r # rs)))"

text \<open>\<open>xs[:limit]\<close>: a negative limit counts from the end.\<close>

definition py_slice_to :: "'a list \<Rightarrow> int \<Rightarrow> 'a list" where
  "py_slice_to xs limit =
     (if 0 \<le> limit then take (nat limit) xs else take (nat (int (length xs) + limit)) xs)"

text \<open>
  \<open>Recommender.recommend\<close> on the catalog of the recommender. \<open>random.shuffle\<close> is the
  parameter \<open>shuffle\<close>: the list it leaves behind.
\<close>

definition recommend ::
  "(item list \<Rightarrow> item list) \<Rightarrow> item list \<Rightarrow> ustr \<Rightarrow> ustr option \<Rightarrow> int \<Rightarrow> ustr option
     \<Rightarrow> py_error + Recommendation list" where
  "recommend shuffle catalog mood_arg media_type limit response_language =
     (let m = (if mood_arg \<in> SUPPORTED_MOODS then mood_arg else ascii ''neutral'');
          by_mood = filter (\<lambda>item. map_of item (ascii ''mood'') = Some m) catalog;
          by_type = (case media_type of
                       None \<Rightarrow> by_mood
                     | Some mt \<Rightarrow>
                         if mt = [] then by_mood
                         else filter (\<lambda>item. map_of item (ascii ''type'') = Some mt) by_mood);
          filtered = (if response_language \<in> {Some (ascii ''fa''), Some (ascii ''en'')}
                      then filter (\<lambda>item. map_of item (ascii ''language'') = response_language) by_type
                      else by_type);
          picks = py_slice_to (shuffle filtered) limit
      in make_all picks)"

text \<open>\<open>d.get(k, default)\<close> and the counting step \<open>d[k] = d.get(k, 0) + 1\<close>.\<close>

definition dict_get :: "(ustr \<times> 'a) list \<Rightarrow> ustr \<Rightarrow> 'a \<Rightarrow> 'a" where
  "dict_get d k dflt = (case map_of d k of None \<Rightarrow> dflt | Some v \<Rightarrow> v)"

definition dict_count :: "(ustr \<times> nat) list \<Rightarrow> ustr \<Rightarrow> (ustr \<times> nat) list" where
  "dict_count d k = AList.update k (dict_get d k 0 + 1) d"

record stats =
  moods :: "(ustr \<times> nat) list"
  languages :: "(ustr \<times> nat) list"

definition count_item :: "stats \<Rightarrow> item \<Rightarrow> stats" where
  "count_item st item =
     \<lparr>moods = dict_count (moods st) (dict_get item (ascii ''mood'') (ascii ''neutral'')),
      languages = dict_count (languages st) (dict_get item (ascii ''language'') (ascii ''en''))\<rparr>"

definition get_stats :: "item list \<Rightarrow> stats" where
  "get_stats catalog = foldl count_item \<lparr>moods = [], languages = []\<rparr> catalog"


section \<open>service.py and the caller in app.py\<close>

record MoodService =
  lang_detector :: "ustr \<Rightarrow> ustr option"
  classifier :: TextEmotionClassifier
  recommender :: "item list"

record ServiceResult =
  language :: ustr
  prediction :: prediction
  recommendations :: "Recommendation list"

definition analyze_and_recommend ::
  "py_runtime \<Rightarrow> (item list \<Rightarrow> item list) \<Rightarrow> MoodService \<Rightarrow> ustr \<Rightarrow> ustr option \<Rightarrow> int
     \<Rightarrow> ustr option \<Rightarrow> py_error + ServiceResult" where
  "analyze_and_recommend rt shuffle svc text media_type limit response_language =
     (let lang = detect (lang_detector svc) text in
      case predict rt (classifier svc) text lang of
        Inl e \<Rightarrow> Inl e
      | Inr p \<Rightarrow>
          (case recommend shuffle (recommender svc) (mood p) media_type limit response_language of
             Inl e \<Rightarrow> Inl e
           | Inr recs \<Rightarrow> Inr \<lparr>language = lang, prediction = p, recommendations = recs\<rparr>))"

text \<open>
  The call made by the \<open>/predict\<close> handler of app.py: a media type outside song and movie
  becomes \<open>None\<close>, a response language outside fa and en becomes \<open>None\<close>, and the limit
  is left at its default.
\<close>

definition handler_media_type :: "ustr option \<Rightarrow> ustr option" where
  "handler_media_type media_type =
     (if media_type \<in> {Some (ascii ''song''), Some (ascii ''movie'')} then media_type else None)"

definition handler_call ::
  "py_runtime \<Rightarrow> (item list \<Rightarrow> item list) \<Rightarrow> MoodService \<Rightarrow> ustr \<Rightarrow> ustr option \<Rightarrow> ustr option
     \<Rightarrow> py_error + ServiceResult" where
  "handler_call rt shuffle svc text media_type response_language =
     analyze_and_recommend rt shuffle svc text (handler_media_type media_type) 6
       (if response_language \<in> {Some (ascii ''fa''), Some (ascii ''en'')}
        then response_language else None)"


section \<open>Sets of the specification and example inputs\<close>

text \<open>The sources a prediction can carry, as the data model of the specification lists them.\<close>

definition prediction_sources :: "ustr set" where
  "prediction_sources =
     set (map ascii [''fallback'', ''lexicon'', ''transformer'', ''lexicon_override_neg'',
                     ''lexicon_override_pos''])"

text \<open>
  Inputs for the concrete evaluations: a runtime whose Unicode case mappings leave a
  string alone and whose \<open>int\<close> always fails, a classifier without models, and a
  catalog of three well-formed items.
\<close>

definition plain_runtime :: py_runtime where
  "plain_runtime = \<lparr>unicode_lower = id, unicode_upper = id, str_to_int = Map.empty\<rparr>"

definition lexicon_only :: TextEmotionClassifier where
  "lexicon_only = \<lparr>use_transformers = False, pipelines = Map.empty, id2label = Map.empty\<rparr>"

definition example_catalog :: "item list" where
  "example_catalog =
     [[(ascii ''title'', ascii ''Here Comes the Sun''), (ascii ''creator'', ascii ''The Beatles''),
       (ascii ''type'', ascii ''song''), (ascii ''mood'', ascii ''joy''),
       (ascii ''language'', ascii ''en'')],
      [(ascii ''title'', ascii ''Inside Out''), (ascii ''creator'', ascii ''Pete Docter''),
       (ascii ''type'', ascii ''movie''), (ascii ''mood'', ascii ''joy''),
       (ascii ''language'', ascii ''en'')],
      [(ascii ''title'', ascii ''Hurt''), (ascii ''creator'', ascii ''Johnny Cash''),
       (ascii ''type'', ascii ''song''), (ascii ''mood'', ascii ''sadness''),
       (ascii ''language'', ascii ''en'')]]"


section \<open>Strings\<close>

lemma ascii_eq_iff [simp]: "ascii a = ascii b \<longleftrightarrow> a = b"
  unfolding ascii_def by (simp add: inj_of_char)

lemma ascii_Nil [simp]: "ascii [] = []" by (simp add: ascii_def)

lemma ascii_eq_Nil [simp]: "ascii a = [] \<longleftrightarrow> a = []" by (simp add: ascii_def)

section \<open>The resolution policy\<close>

text \<open>
  C1. For every model prediction \<open>(tf_label, tf_mood)\<close> and lexicon prediction
  \<open>(lex_label, lex_mood)\<close>, the resolution policy returns the model's pair with source
  transformer when the two moods are equal; the lexicon's pair with source
  lexicon\_override\_neg when the lexicon mood is anger, sadness or fear and the model mood
  is neutral, joy or excitement; the lexicon's pair with source lexicon\_override\_pos when
  the lexicon mood is joy or excitement and the model mood is sadness, anger, fear or
  neutral; and the model's pair with source transformer in every remaining case.
\<close>

theorem resolve_with_lexicon_policy:
  "(tf_mood = lex_mood \<longrightarrow>
      resolve_with_lexicon tf_label tf_mood lex_label lex_mood
        = (tf_label, tf_mood, ascii ''transformer''))
   \<and> (lex_mood \<in> {ascii ''anger'', ascii ''sadness'', ascii ''fear''}
        \<and> tf_mood \<in> {ascii ''neutral'', ascii ''joy'', ascii ''excitement''} \<longrightarrow>
      resolve_with_lexicon tf_label tf_mood lex_label lex_mood
        = (lex_label, lex_mood, ascii ''lexicon_override_neg''))
   \<and> (lex_mood \<in> {ascii ''joy'', ascii ''excitement''}
        \<and> tf_mood \<in> {ascii ''sadness'', ascii ''anger'', ascii ''fear'', ascii ''neutral''} \<longrightarrow>
      resolve_with_lexicon tf_label tf_mood lex_label lex_mood
        = (lex_label, lex_mood, ascii ''lexicon_override_pos''))
   \<and> (tf_mood \<noteq> lex_mood
        \<and> \<not> (lex_mood \<in> {ascii ''anger'', ascii ''sadness'', ascii ''fear''}
              \<and> tf_mood \<in> {ascii ''neutral'', ascii ''joy'', ascii ''excitement''})
        \<and> \<not> (lex_mood \<in> {ascii ''joy'', ascii ''excitement''}
              \<and> tf_mood \<in> {ascii ''sadness'', ascii ''anger'', ascii ''fear'', ascii ''neutral''}) \<longrightarrow>
      resolve_with_lexicon tf_label tf_mood lex_label lex_mood
        = (tf_label, tf_mood, ascii ''transformer''))"
proof (intro conjI impI)
  show "resolve_with_lexicon tf_label tf_mood lex_label lex_mood
          = (tf_label, tf_mood, ascii ''transformer'')" if "tf_mood = lex_mood"
    using that by (simp add: resolve_with_lexicon_def)
  show "resolve_with_lexicon tf_label tf_mood lex_label lex_mood
          = (lex_label, lex_mood, ascii ''lexicon_override_neg'')"
    if "lex_mood \<in> {ascii ''anger'', ascii ''sadness'', ascii ''fear''}
        \<and> tf_mood \<in> {ascii ''neutral'', ascii ''joy'', ascii ''excitement''}"
  proof -
    from that have "tf_mood \<noteq> lex_mood" by auto
    with that show ?thesis by (simp add: resolve_with_lexicon_def)
  qed
  show "resolve_with_lexicon tf_label tf_mood lex_label lex_mood
          = (lex_label, lex_mood, ascii ''lexicon_override_pos'')"
    if "lex_mood \<in> {ascii ''joy'', ascii ''excitement''}
        \<and> tf_mood \<in> {ascii ''sadness'', ascii ''anger'', ascii ''fear'', ascii ''neutral''}"
  proof -
    from that have "tf_mood \<noteq> lex_mood"
      and "lex_mood \<notin> {ascii ''anger'', ascii ''sadness'', ascii ''fear''}" by auto
    with that show ?thesis by (simp add: resolve_with_lexicon_def)
  qed
  show "resolve_with_lexicon tf_label tf_mood lex_label lex_mood
          = (tf_label, tf_mood, ascii ''transformer'')"
    if "tf_mood \<noteq> lex_mood
        \<and> \<not> (lex_mood \<in> {ascii ''anger'', ascii ''sadness'', ascii ''fear''}
              \<and> tf_mood \<in> {ascii ''neutral'', ascii ''joy'', ascii ''excitement''})
        \<and> \<not> (lex_mood \<in> {ascii ''joy'', ascii ''excitement''}
              \<and> tf_mood \<in> {ascii ''sadness'', ascii ''anger'', ascii ''fear'', ascii ''neutral''})"
    using that unfolding resolve_with_lexicon_def by (simp only: if_False if_True)
qed

theorem resolve_with_lexicon_policy_witness:
  "resolve_with_lexicon (ascii ''anger'') (ascii ''anger'') (ascii ''mad'') (ascii ''anger'')
     = (ascii ''anger'', ascii ''anger'', ascii ''transformer'')
   \<and> resolve_with_lexicon (ascii ''joy'') (ascii ''joy'') (ascii ''sadness'') (ascii ''sadness'')
     = (ascii ''sadness'', ascii ''sadness'', ascii ''lexicon_override_neg'')
   \<and> resolve_with_lexicon (ascii ''fear'') (ascii ''fear'') (ascii ''joy'') (ascii ''joy'')
     = (ascii ''joy'', ascii ''joy'', ascii ''lexicon_override_pos'')
   \<and> resolve_with_lexicon (ascii ''excitement'') (ascii ''excitement'') (ascii ''neutral'') (ascii ''neutral'')
     = (ascii ''excitement'', ascii ''excitement'', ascii ''transformer'')"
  using resolve_with_lexicon_policy
          [of "ascii ''anger''" "ascii ''anger''" "ascii ''anger''" "ascii ''mad''"]
        resolve_with_lexicon_policy
          [of "ascii ''joy''" "ascii ''sadness''" "ascii ''joy''" "ascii ''sadness''"]
        resolve_with_lexicon_policy
          [of "ascii ''fear''" "ascii ''joy''" "ascii ''fear''" "ascii ''joy''"]
        resolve_with_lexicon_policy
          [of "ascii ''excitement''" "ascii ''neutral''" "ascii ''excitement''" "ascii ''neutral''"]
  by simp



section \<open>The label normaliser\<close>

text \<open>
  C10. The result of \<open>map_label_to_mood\<close> does not depend on its language argument:
  any two language values give the same mood for the same label.
\<close>

theorem map_label_to_mood_language_independent:
  "map_label_to_mood rt l1 lbl = map_label_to_mood rt l2 lbl"
  by (simp add: map_label_to_mood_def)

subsection \<open>Stripping\<close>

lemma all_dropWhile_iff: "(\<forall>x\<in>set (dropWhile P xs). P x) \<longleftrightarrow> (\<forall>x\<in>set xs. P x)"
  by (induction xs) auto

lemma py_strip_Nil_iff: "py_strip s = [] \<longleftrightarrow> (\<forall>c\<in>set s. py_isspace c)"
  unfolding py_strip_def by (simp add: all_dropWhile_iff)

lemma in_dropWhile: "c \<in> set xs \<Longrightarrow> \<not> P c \<Longrightarrow> c \<in> set (dropWhile P xs)"
  by (induction xs) auto

lemma py_strip_keeps: "c \<in> set s \<Longrightarrow> \<not> py_isspace c \<Longrightarrow> c \<in> set (py_strip s)"
  unfolding py_strip_def by (simp add: in_dropWhile)

subsection \<open>The moods are fixed points\<close>

lemma LABEL_MAP_values: "snd ` set LABEL_MAP \<subseteq> SUPPORTED_MOODS"
  by (simp add: LABEL_MAP_def SUPPORTED_MOODS_def)

lemma strip_mood: "m \<in> SUPPORTED_MOODS \<Longrightarrow> py_strip m = m"
  unfolding SUPPORTED_MOODS_def by (auto simp: py_strip_def ascii_def py_isspace_def)

lemma lower_mood: "m \<in> SUPPORTED_MOODS \<Longrightarrow> py_lower rt m = m"
  unfolding SUPPORTED_MOODS_def by (auto simp: py_lower_def ascii_def ascii_lower_def)

lemma lookup_mood: "m \<in> SUPPORTED_MOODS \<Longrightarrow> map_of LABEL_MAP m = Some m"
  unfolding SUPPORTED_MOODS_def by (auto simp: LABEL_MAP_def)


lemma map_label_to_mood_supported: "map_label_to_mood rt lang l \<in> SUPPORTED_MOODS"
proof -
  have neutral: "ascii ''neutral'' \<in> SUPPORTED_MOODS"
    by (simp add: SUPPORTED_MOODS_def)
  have direct: "v \<in> SUPPORTED_MOODS" if "map_of LABEL_MAP k = Some v" for k v
    using map_of_SomeD [OF that] LABEL_MAP_values by force
  have scan: "v \<in> SUPPORTED_MOODS" if "find P LABEL_MAP = Some (k, v)" for P k v
  proof -
    from that have "(k, v) \<in> set LABEL_MAP"
      by (auto simp: find_Some_iff)
    then show ?thesis using LABEL_MAP_values by force
  qed
  show ?thesis
    unfolding map_label_to_mood_def Let_def
    by (auto split: option.splits intro: neutral direct scan)
qed

lemma map_label_to_mood_fixes_mood:
  assumes "m \<in> SUPPORTED_MOODS"
  shows "map_label_to_mood rt lang m = m"
  using assms by (simp add: map_label_to_mood_def strip_mood lower_mood lookup_mood)

text \<open>
  C9. \<open>map_label_to_mood\<close> is idempotent: each of the six canonical mood names joy,
  sadness, anger, fear, neutral and excitement is mapped to itself, and consequently for
  every label \<open>l\<close>, mapping the mood of \<open>l\<close> again gives the mood of \<open>l\<close>.
\<close>

theorem map_label_to_mood_idempotent:
  "(\<forall>m \<in> set (map ascii [''joy'', ''sadness'', ''anger'', ''fear'', ''neutral'', ''excitement'']).
      map_label_to_mood rt lang m = m)
   \<and> map_label_to_mood rt lang (map_label_to_mood rt lang l) = map_label_to_mood rt lang l"
proof
  show "\<forall>m \<in> set (map ascii [''joy'', ''sadness'', ''anger'', ''fear'', ''neutral'', ''excitement'']).
      map_label_to_mood rt lang m = m"
    using map_label_to_mood_fixes_mood [of _ rt lang] unfolding SUPPORTED_MOODS_def by blast
  show "map_label_to_mood rt lang (map_label_to_mood rt lang l) = map_label_to_mood rt lang l"
    by (rule map_label_to_mood_fixes_mood) (rule map_label_to_mood_supported)
qed

theorem map_label_to_mood_idempotent_witness:
  "ascii ''joy'' \<in> set (map ascii [''joy'', ''sadness'', ''anger'', ''fear'', ''neutral'', ''excitement''])
   \<and> map_label_to_mood plain_runtime
        (ascii ''en'') (ascii ''joy'') = ascii ''joy''
   \<and> map_label_to_mood plain_runtime
        (ascii ''en'')
        (map_label_to_mood plain_runtime
           (ascii ''en'') (ascii '' Happy days ''))
      = map_label_to_mood plain_runtime
          (ascii ''en'') (ascii '' Happy days '')"
  using map_label_to_mood_idempotent
          [of "plain_runtime"
              "ascii ''en''" "ascii '' Happy days ''"]
  by simp

section \<open>Blank text\<close>

text \<open>
  C4. For every text that is empty or consists only of whitespace, for every language and
  whether or not model mode is active, \<open>predict\<close> returns exactly label neutral, mood
  neutral, source fallback.
\<close>

theorem predict_blank_is_fallback:
  assumes "\<forall>c \<in> set text. py_isspace c"
  shows "predict rt clf text lang
           = Inr \<lparr>label = ascii ''neutral'', mood = ascii ''neutral'', source = ascii ''fallback''\<rparr>"
proof -
  from assms have "py_strip text = []" by (simp add: py_strip_Nil_iff)
  then show ?thesis by (simp add: predict_def)
qed

theorem predict_blank_is_fallback_witness:
  "list_all py_isspace [32, 9, 10, 8195]
   \<and> predict plain_runtime
        \<lparr>use_transformers = True,
         pipelines = (\<lambda>l. Some (\<lambda>t. Some (PList [PList [PDict [(ascii ''label'', PStr (ascii ''joy''))]]]))),
         id2label = (\<lambda>l. None)\<rparr>
        [32, 9, 10, 8195] (ascii ''fa'')
      = Inr \<lparr>label = ascii ''neutral'', mood = ascii ''neutral'', source = ascii ''fallback''\<rparr>"
proof -
  have blank: "\<forall>c \<in> set [32, 9, 10, 8195]. py_isspace c"
    by (simp add: py_isspace_def)
  from blank predict_blank_is_fallback [OF blank] show ?thesis
    by (simp add: list_all_iff)
qed

section \<open>Language detection\<close>

lemma persian_not_space: "1536 \<le> c \<Longrightarrow> c \<le> 1791 \<Longrightarrow> \<not> py_isspace c"
  by (simp add: py_isspace_def)

text \<open>
  C5. For every text that has at least one character in the Arabic-script range
  U+0600 to U+06FF, \<open>detect\<close> returns fa, whatever the statistical detector would return:
  the result is the same for every behaviour of that routine, also one that fails.
\<close>

theorem detect_persian_script:
  assumes "\<exists>c \<in> set text. 1536 \<le> c \<and> c \<le> 1791"
  shows "detect langdetect text = ascii ''fa''"
proof -
  from assms obtain c where c: "c \<in> set text" "1536 \<le> c" "c \<le> 1791" by blast
  then have "c \<in> set (py_strip text)"
    by (simp add: py_strip_keeps persian_not_space)
  with c have "py_strip text \<noteq> []" and "list_ex persian_pattern (py_strip text)"
    by (auto simp: list_ex_iff persian_pattern_def)
  then show ?thesis by (simp add: detect_def)
qed

theorem detect_persian_script_witness:
  "(\<exists>c \<in> set ([1587, 1604, 1575, 1605] @ ascii '' hello world''). 1536 \<le> c \<and> c \<le> 1791)
   \<and> detect (\<lambda>t. Some (ascii ''en'')) ([1587, 1604, 1575, 1605] @ ascii '' hello world'') = ascii ''fa''"
proof -
  have h: "\<exists>c \<in> set ([1587, 1604, 1575, 1605] @ ascii '' hello world''). 1536 \<le> c \<and> c \<le> 1791"
    by simp
  from h detect_persian_script [OF h] show ?thesis by blast
qed


section \<open>Catalog statistics\<close>

lemma sum_dict_count: "sum_list (map snd (dict_count d k)) = Suc (sum_list (map snd d))"
  unfolding dict_count_def dict_get_def
  by (induction d) (auto split: option.splits)

lemma distinct_dict_count: "distinct (map fst d) \<Longrightarrow> distinct (map fst (dict_count d k))"
  unfolding dict_count_def by (rule distinct_update)

lemma foldl_count_item_moods:
  "sum_list (map snd (moods (foldl count_item st catalog)))
     = sum_list (map snd (moods st)) + length catalog"
  by (induction catalog arbitrary: st) (simp_all add: count_item_def sum_dict_count)

lemma foldl_count_item_languages:
  "sum_list (map snd (languages (foldl count_item st catalog)))
     = sum_list (map snd (languages st)) + length catalog"
  by (induction catalog arbitrary: st) (simp_all add: count_item_def sum_dict_count)

lemma foldl_count_item_distinct:
  "distinct (map fst (moods st)) \<Longrightarrow> distinct (map fst (languages st)) \<Longrightarrow>
   distinct (map fst (moods (foldl count_item st catalog)))
   \<and> distinct (map fst (languages (foldl count_item st catalog)))"
  by (induction catalog arbitrary: st) (simp_all add: count_item_def distinct_dict_count)

text \<open>
  C8. For every catalog, the per-mood counts returned by \<open>get_stats\<close> sum to the number
  of catalog items, and so do the per-language counts. Each count dict has one entry per
  key, so the sums range over all moods and all languages.
\<close>

theorem get_stats_sums:
  "sum_list (map snd (moods (get_stats catalog))) = length catalog
   \<and> sum_list (map snd (languages (get_stats catalog))) = length catalog
   \<and> distinct (map fst (moods (get_stats catalog)))
   \<and> distinct (map fst (languages (get_stats catalog)))"
  unfolding get_stats_def
  using foldl_count_item_distinct [of "\<lparr>moods = [], languages = []\<rparr>" catalog]
  by (simp add: foldl_count_item_moods foldl_count_item_languages)


section \<open>The lexicon predictor\<close>

lemma map_other_keys:
  "k \<notin> fst ` set d \<Longrightarrow> map (\<lambda>(k', n). (k', if k' = k then f n else n)) d = d"
  by (induction d) auto

lemma update_present:
  "distinct (map fst d) \<Longrightarrow> map_of d k = Some n \<Longrightarrow>
   AList.update k (f n) d = map (\<lambda>(k', m). (k', if k' = k then f m else m)) d"
proof (induction d)
  case Nil
  then show ?case by simp
next
  case (Cons p d)
  show ?case
  proof (cases "fst p = k")
    case True
    with Cons.prems have "k \<notin> fst ` set d" "snd p = n" by auto
    with True show ?thesis
      by (cases p) (simp add: map_other_keys)
  next
    case False
    with Cons show ?thesis by (cases p) auto
  qed
qed

lemma keys_map_value: "map fst (map (\<lambda>(k, n). (k, f k n)) d) = map fst d"
  by (induction d) auto

lemma keyset_map_value: "fst ` set (map (\<lambda>(k, n). (k, f k n)) d) = fst ` set d"
  by (induction d) auto

lemma dict_incr_present:
  assumes "distinct (map fst scores)" "lbl \<in> fst ` set scores"
  shows "dict_incr scores lbl = Inr (map (\<lambda>(k, n). (k, if k = lbl then n + 1 else n)) scores)"
proof -
  from assms(2) have "lbl \<in> dom (map_of scores)"
    by (simp add: dom_map_of_conv_image_fst)
  then obtain n where n: "map_of scores lbl = Some n" by blast
  with assms(1) show ?thesis
    using update_present [of scores lbl n "\<lambda>n. n + 1"] by (simp add: dict_incr_def)
qed

lemma count_keywords_present:
  assumes "distinct (map fst scores)" "lbl \<in> fst ` set scores"
  shows "count_keywords txt lbl kws scores
           = Inr (map (\<lambda>(k, n). (k, if k = lbl then n + keyword_count txt kws else n)) scores)"
  using assms
proof (induction kws arbitrary: scores)
  case Nil
  have "map (\<lambda>(k, n). (k, if k = lbl then n + keyword_count txt [] else n)) scores = scores"
    by (induction scores) (auto simp: keyword_count_def)
  then show ?case by simp
next
  case (Cons word kws)
  let ?s = "map (\<lambda>(k, n). (k, if k = lbl then n + 1 else n)) scores"
  show ?case
  proof (cases "py_in word txt")
    case True
    have "distinct (map fst ?s)" "lbl \<in> fst ` set ?s"
      using Cons.prems by (simp_all only: keys_map_value keyset_map_value)
    from Cons.IH [OF this] have
      "count_keywords txt lbl kws ?s
         = Inr (map (\<lambda>(k, n). (k, if k = lbl then n + keyword_count txt kws else n)) ?s)" .
    also have "map (\<lambda>(k, n). (k, if k = lbl then n + keyword_count txt kws else n)) ?s
         = map (\<lambda>(k, n). (k, if k = lbl then n + keyword_count txt (word # kws) else n)) scores"
      using True by (induction scores) (auto simp: keyword_count_def)
    finally show ?thesis
      using True Cons.prems by (simp add: dict_incr_present)
  next
    case False
    then have kc: "keyword_count txt (word # kws) = keyword_count txt kws"
      by (simp add: keyword_count_def)
    show ?thesis
      unfolding kc using Cons.IH [OF Cons.prems] False by simp
  qed
qed

text \<open>The scores after the two loops, for a lexicon whose labels are distinct.\<close>

lemma score_lexicon_general:
  assumes "distinct (map fst scores)" "fst ` set rest \<subseteq> fst ` set scores" "distinct (map fst rest)"
  shows "score_lexicon txt rest scores
           = Inr (map (\<lambda>(k, n). (k, n + (case map_of rest k of None \<Rightarrow> 0
                                           | Some kws \<Rightarrow> keyword_count txt kws))) scores)"
  using assms
proof (induction rest arbitrary: scores)
  case Nil
  have "map (\<lambda>(k, n). (k, n + 0)) scores = scores"
    by (induction scores) auto
  then show ?case by simp
next
  case (Cons e rest)
  obtain lbl kws where e: "e = (lbl, kws)" by (cases e)
  let ?s = "map (\<lambda>(k, n). (k, if k = lbl then n + keyword_count txt kws else n)) scores"
  have step: "count_keywords txt lbl kws scores = Inr ?s"
    using Cons.prems e by (simp add: count_keywords_present)
  have none: "map_of rest lbl = None"
    using Cons.prems(3) e by (simp add: map_of_eq_None_iff)
  have "distinct (map fst ?s)"
    using Cons.prems(1) by (simp only: keys_map_value)
  moreover have "fst ` set rest \<subseteq> fst ` set ?s"
    using Cons.prems(2) by (simp only: keyset_map_value) simp
  moreover have "distinct (map fst rest)"
    using Cons.prems(3) by simp
  ultimately have
    "score_lexicon txt rest ?s
       = Inr (map (\<lambda>(k, n). (k, n + (case map_of rest k of None \<Rightarrow> 0
                                       | Some kws \<Rightarrow> keyword_count txt kws))) ?s)"
    by (rule Cons.IH)
  also have "map (\<lambda>(k, n). (k, n + (case map_of rest k of None \<Rightarrow> 0
                                       | Some kws \<Rightarrow> keyword_count txt kws))) ?s
       = map (\<lambda>(k, n). (k, n + (case map_of (e # rest) k of None \<Rightarrow> 0
                                       | Some kws \<Rightarrow> keyword_count txt kws))) scores"
    using none e by (induction scores) auto
  finally show ?case
    using step e by simp
qed

lemma score_lexicon_counts:
  assumes "distinct (map fst lexicon)"
  shows "score_lexicon txt lexicon (map (\<lambda>(lbl, kws). (lbl, 0)) lexicon)
           = Inr (map (\<lambda>(lbl, kws). (lbl, keyword_count txt kws)) lexicon)"
proof -
  let ?z = "map (\<lambda>(lbl, kws). (lbl, 0::nat)) lexicon"
  have "distinct (map fst ?z)" "fst ` set lexicon \<subseteq> fst ` set ?z"
    using assms by (simp_all only: keys_map_value keyset_map_value order_refl)
  then have "score_lexicon txt lexicon ?z
       = Inr (map (\<lambda>(k, n). (k, n + (case map_of lexicon k of None \<Rightarrow> 0
                                       | Some kws \<Rightarrow> keyword_count txt kws))) ?z)"
    using assms by (rule score_lexicon_general)
  also have "map (\<lambda>(k, n). (k, n + (case map_of lexicon k of None \<Rightarrow> 0
                                       | Some kws \<Rightarrow> keyword_count txt kws))) ?z
       = map (\<lambda>(lbl, kws). (lbl, keyword_count txt kws)) lexicon"
    using assms by (auto simp: case_prod_unfold)
  finally show ?thesis .
qed

text \<open>The first maximal item: everything before it is strictly smaller.\<close>

lemma py_max_by_snd_first:
  "\<exists>pre post. b # xs = pre @ py_max_by_snd b xs # post
     \<and> (\<forall>p \<in> set pre. snd p < snd (py_max_by_snd b xs))
     \<and> (\<forall>p \<in> set post. snd p \<le> snd (py_max_by_snd b xs))"
proof (induction xs arbitrary: b)
  case Nil
  show ?case by (rule exI [of _ "[]"]) simp
next
  case (Cons x xs)
  show ?case
  proof (cases "snd b < snd x")
    case True
    then have eq: "py_max_by_snd b (x # xs) = py_max_by_snd x xs" by simp
    from Cons.IH [of x] obtain pre post where
      d: "x # xs = pre @ py_max_by_snd x xs # post"
      and lt: "\<forall>p \<in> set pre. snd p < snd (py_max_by_snd x xs)"
      and le: "\<forall>p \<in> set post. snd p \<le> snd (py_max_by_snd x xs)" by blast
    have "snd x \<le> snd (py_max_by_snd x xs)"
    proof (cases pre)
      case Nil
      with d have "x = py_max_by_snd x xs" by (metis append_Nil list.inject)
      then show ?thesis by (metis order_refl)
    next
      case (Cons a list)
      with d have "a = x" by (metis append_Cons list.inject)
      with lt Cons show ?thesis by simp
    qed
    with True have b: "snd b < snd (py_max_by_snd x xs)" by simp
    from d have "b # x # xs = (b # pre) @ py_max_by_snd x xs # post" by simp
    moreover from b lt have "\<forall>p \<in> set (b # pre). snd p < snd (py_max_by_snd x xs)" by simp
    ultimately show ?thesis
      unfolding eq using le by blast
  next
    case False
    then have eq: "py_max_by_snd b (x # xs) = py_max_by_snd b xs" by simp
    from Cons.IH [of b] obtain pre post where
      d: "b # xs = pre @ py_max_by_snd b xs # post"
      and lt: "\<forall>p \<in> set pre. snd p < snd (py_max_by_snd b xs)"
      and le: "\<forall>p \<in> set post. snd p \<le> snd (py_max_by_snd b xs)" by blast
    show ?thesis
    proof (cases pre)
      case Nil
      with d have m: "py_max_by_snd b xs = b" "post = xs"
        by (metis append_Nil list.inject)+
      then have "b # x # xs = [] @ py_max_by_snd b xs # (x # xs)" by simp
      moreover from m False le
      have "\<forall>p \<in> set (x # xs). snd p \<le> snd (py_max_by_snd b xs)" by simp
      moreover have "\<forall>p \<in> set []. snd p < snd (py_max_by_snd b xs)" by simp
      ultimately show ?thesis
        unfolding eq by blast
    next
      case (Cons a list)
      with d have a: "a = b" "xs = list @ py_max_by_snd b xs # post"
        by (metis append_Cons list.inject)+
      with lt Cons have "snd b < snd (py_max_by_snd b xs)" by simp
      with False have "snd x < snd (py_max_by_snd b xs)" by simp
      with lt Cons a
      have "\<forall>p \<in> set (b # x # list). snd p < snd (py_max_by_snd b xs)" by simp
      moreover from a have "b # x # xs = (b # x # list) @ py_max_by_snd b xs # post"
        by simp
      ultimately show ?thesis
        unfolding eq using le by blast
    qed
  qed
qed


lemma lexicon_for_distinct: "distinct (map fst (lexicon_for lang))"
  by (simp add: lexicon_for_def ENGLISH_LEXICON_def PERSIAN_LEXICON_def)

lemma lexicon_for_nonempty: "lexicon_for lang \<noteq> []"
  by (simp add: lexicon_for_def ENGLISH_LEXICON_def PERSIAN_LEXICON_def)

lemma map_split_at:
  assumes "map f xs = pre' @ m # post'"
  shows "\<exists>pre e post. xs = pre @ e # post \<and> map f pre = pre' \<and> f e = m \<and> map f post = post'"
proof -
  from assms obtain pre rest where "xs = pre @ rest" "pre' = map f pre" "m # post' = map f rest"
    by (auto simp: map_eq_append_conv)
  moreover from this(3) obtain e post where "rest = e # post" "f e = m" "map f post = post'"
    by (auto simp: Cons_eq_map_conv)
  ultimately show ?thesis by auto
qed

lemma map_nonempty: "xs \<noteq> [] \<Longrightarrow> \<exists>s ss. map f xs = s # ss"
  by (cases xs) auto

lemma lexicon_label_of_scores:
  assumes lx: "distinct (map fst lexicon)" "lexicon \<noteq> []"
  shows "\<exists>pre lbl kws post.
      lexicon = pre @ (lbl, kws) # post
    \<and> (\<forall>e \<in> set pre. keyword_count txt (snd e) < keyword_count txt kws)
    \<and> (\<forall>e \<in> set post. keyword_count txt (snd e) \<le> keyword_count txt kws)
    \<and> (case score_lexicon txt lexicon (map (\<lambda>(lbl, kws). (lbl, 0)) lexicon) of
           Inl e \<Rightarrow> Inl e
         | Inr [] \<Rightarrow> Inl ValueError
         | Inr (s # ss) \<Rightarrow>
             (case map_of (s # ss) (fst (py_max_by_snd s ss)) of
                None \<Rightarrow> Inl KeyError
              | Some n \<Rightarrow>
                  if n = 0 then Inr (ascii ''neutral'') else Inr (fst (py_max_by_snd s ss))))
        = Inr (if keyword_count txt kws = 0 then ascii ''neutral'' else lbl)"
proof -
  let ?f = "\<lambda>(lbl, kws). (lbl, keyword_count txt kws)"
  let ?scores = "map ?f lexicon"
  have scores: "score_lexicon txt lexicon (map (\<lambda>(lbl, kws). (lbl, 0)) lexicon) = Inr ?scores"
    using lx(1) by (rule score_lexicon_counts)
  from map_nonempty [OF lx(2), of ?f] obtain s ss where ne: "?scores = s # ss"
    by (elim exE)
  from py_max_by_snd_first [of s ss] obtain pre' post' where
    d: "s # ss = pre' @ py_max_by_snd s ss # post'"
    and lt: "\<forall>p \<in> set pre'. snd p < snd (py_max_by_snd s ss)"
    and le: "\<forall>p \<in> set post'. snd p \<le> snd (py_max_by_snd s ss)"
    by (elim exE conjE)
  from d ne have "map ?f lexicon = pre' @ py_max_by_snd s ss # post'" by simp
  from map_split_at [OF this] obtain pre e post where split: "lexicon = pre @ e # post"
    and pre: "map ?f pre = pre'" and e: "?f e = py_max_by_snd s ss"
    and post: "map ?f post = post'"
    by (elim exE conjE)
  obtain lbl kws where lk: "e = (lbl, kws)" by (cases e)
  with e have best: "py_max_by_snd s ss = (lbl, keyword_count txt kws)" by simp
  have "(lbl, keyword_count txt kws) \<in> set (pre' @ py_max_by_snd s ss # post')"
    unfolding best by simp
  then have "(lbl, keyword_count txt kws) \<in> set (s # ss)"
    unfolding d .
  moreover have "distinct (map fst (s # ss))"
    using lx(1) ne [symmetric] by (simp only: keys_map_value)
  ultimately have look: "map_of (s # ss) lbl = Some (keyword_count txt kws)"
    by (rule map_of_is_SomeI [rotated])
  have "\<forall>e \<in> set pre. keyword_count txt (snd e) < keyword_count txt kws"
    using lt best pre [symmetric] by (auto simp: case_prod_unfold)
  moreover have "\<forall>e \<in> set post. keyword_count txt (snd e) \<le> keyword_count txt kws"
    using le best post [symmetric] by (auto simp: case_prod_unfold)
  moreover have "lexicon = pre @ (lbl, kws) # post"
    using split lk by simp
  moreover have "(case score_lexicon txt lexicon (map (\<lambda>(lbl, kws). (lbl, 0)) lexicon) of
           Inl e \<Rightarrow> Inl e
         | Inr [] \<Rightarrow> Inl ValueError
         | Inr (s # ss) \<Rightarrow>
             (case map_of (s # ss) (fst (py_max_by_snd s ss)) of
                None \<Rightarrow> Inl KeyError
              | Some n \<Rightarrow>
                  if n = 0 then Inr (ascii ''neutral'') else Inr (fst (py_max_by_snd s ss))))
        = Inr (if keyword_count txt kws = 0 then ascii ''neutral'' else lbl)"
    unfolding scores ne using best look by (simp del: map_of.simps)
  ultimately show ?thesis
    by (intro exI [of _ pre] exI [of _ lbl] exI [of _ kws] exI [of _ post] conjI)
qed

lemma lexicon_label_first_max:
  "\<exists>pre lbl kws post.
      lexicon_for lang = pre @ (lbl, kws) # post
    \<and> (\<forall>e \<in> set pre.
          keyword_count (py_lower rt text) (snd e) < keyword_count (py_lower rt text) kws)
    \<and> (\<forall>e \<in> set post.
          keyword_count (py_lower rt text) (snd e) \<le> keyword_count (py_lower rt text) kws)
    \<and> lexicon_label rt text lang
        = Inr (if keyword_count (py_lower rt text) kws = 0 then ascii ''neutral'' else lbl)"
  unfolding lexicon_label_def Let_def
  by (rule lexicon_label_of_scores) (rule lexicon_for_distinct, rule lexicon_for_nonempty)

lemma lexicon_label_total: "\<exists>l. lexicon_label rt text lang = Inr l"
  using lexicon_label_first_max [of lang rt "text"] by (elim exE conjE) (rule exI)

text \<open>
  C6. For every text and every language, \<open>lexicon_label\<close> returns the first mood, in
  the declaration order of the keyword table, whose count of keywords occurring as
  substrings of the lowercased text is maximal: every mood before it in the table has a
  strictly smaller count and every mood after it has a count that is not greater. If
  that maximal count is zero it returns neutral.
\<close>

theorem lexicon_label_stable_max:
  "\<exists>pre lbl kws post.
      lexicon_for lang = pre @ (lbl, kws) # post
    \<and> (\<forall>e \<in> set pre.
          keyword_count (py_lower rt text) (snd e) < keyword_count (py_lower rt text) kws)
    \<and> (\<forall>e \<in> set post.
          keyword_count (py_lower rt text) (snd e) \<le> keyword_count (py_lower rt text) kws)
    \<and> lexicon_label rt text lang
        = Inr (if keyword_count (py_lower rt text) kws = 0 then ascii ''neutral'' else lbl)"
  by (rule lexicon_label_first_max)

lemma lexicon_label_tie:
  "lexicon_label plain_runtime
     (ascii ''Happy but sad'') (ascii ''en'') = Inr (ascii ''joy'')"
  by code_simp

theorem lexicon_label_stable_max_witness:
  "(\<exists>pre lbl kws post.
      lexicon_for (ascii ''en'') = pre @ (lbl, kws) # post
    \<and> (\<forall>e \<in> set pre.
          keyword_count
            (py_lower plain_runtime
               (ascii ''Happy but sad'')) (snd e)
          < keyword_count
              (py_lower plain_runtime
                 (ascii ''Happy but sad'')) kws)
    \<and> (\<forall>e \<in> set post.
          keyword_count
            (py_lower plain_runtime
               (ascii ''Happy but sad'')) (snd e)
          \<le> keyword_count
              (py_lower plain_runtime
                 (ascii ''Happy but sad'')) kws)
    \<and> lexicon_label plain_runtime
          (ascii ''Happy but sad'') (ascii ''en'')
        = Inr (if keyword_count
                    (py_lower plain_runtime
                       (ascii ''Happy but sad'')) kws = 0
               then ascii ''neutral'' else lbl))
   \<and> lexicon_label plain_runtime
        (ascii ''Happy but sad'') (ascii ''en'') = Inr (ascii ''joy'')"
  by (rule conjI [OF lexicon_label_stable_max lexicon_label_tie])


section \<open>The recommender\<close>

lemma make_Recommendation_fields:
  assumes "make_Recommendation item = Inr r"
  shows "map_of item (ascii ''mood'') = Some (rec_mood r)"
    and "map_of item (ascii ''type'') = Some (rec_type r)"
    and "map_of item (ascii ''language'') = Some (rec_language r)"
  using assms
  by (auto simp: make_Recommendation_def split: if_splits option.splits)

lemma make_Recommendation_total:
  assumes "set (map fst item) = set Recommendation_fields"
  shows "\<exists>r. make_Recommendation item = Inr r"
proof -
  have "k \<in> set Recommendation_fields \<Longrightarrow> \<exists>v. map_of item k = Some v" for k
    using assms by (metis domD dom_map_of_conv_image_fst list.set_map)
  then have "\<exists>v. map_of item (ascii ''title'') = Some v"
    "\<exists>v. map_of item (ascii ''creator'') = Some v"
    "\<exists>v. map_of item (ascii ''type'') = Some v"
    "\<exists>v. map_of item (ascii ''mood'') = Some v"
    "\<exists>v. map_of item (ascii ''language'') = Some v"
    by (simp_all add: Recommendation_fields_def)
  with assms show ?thesis
    unfolding make_Recommendation_def by (auto simp del: set_map)
qed

lemma make_all_total:
  "\<forall>item \<in> set items. set (map fst item) = set Recommendation_fields \<Longrightarrow>
   \<exists>recs. make_all items = Inr recs"
proof (induction items)
  case Nil
  show ?case by simp
next
  case (Cons item items)
  then obtain r recs where "make_Recommendation item = Inr r" "make_all items = Inr recs"
    using make_Recommendation_total [of item] by auto
  then show ?case by simp
qed

lemma set_py_slice_to: "set (py_slice_to xs n) \<subseteq> set xs"
  by (auto simp: py_slice_to_def dest: in_set_takeD)

lemma length_py_slice_to: "0 \<le> n \<Longrightarrow> length (py_slice_to xs n) \<le> nat n"
  by (simp add: py_slice_to_def)

lemma recommend_as_make_all:
  assumes "\<forall>xs. mset (shuffle xs) = mset xs"
  shows "\<exists>picks. recommend shuffle catalog m media_type lim response_language = make_all picks
      \<and> set picks \<subseteq> {item \<in> set catalog. map_of item (ascii ''mood'')
                            = Some (if m \<in> SUPPORTED_MOODS then m else ascii ''neutral'')}
      \<and> (0 \<le> lim \<longrightarrow> length picks \<le> nat lim)"
proof -
  have sh: "set (shuffle xs) = set xs" for xs
    using assms by (metis mset_eq_setD)
  define m' where "m' = (if m \<in> SUPPORTED_MOODS then m else ascii ''neutral'')"
  define by_mood where "by_mood = filter (\<lambda>item. map_of item (ascii ''mood'') = Some m') catalog"
  define by_type where "by_type = (case media_type of
                       None \<Rightarrow> by_mood
                     | Some mt \<Rightarrow>
                         if mt = [] then by_mood
                         else filter (\<lambda>item. map_of item (ascii ''type'') = Some mt) by_mood)"
  define filtered where "filtered = (if response_language \<in> {Some (ascii ''fa''), Some (ascii ''en'')}
                      then filter (\<lambda>item. map_of item (ascii ''language'') = response_language) by_type
                      else by_type)"
  have "set by_type \<subseteq> set by_mood"
    by (auto simp: by_type_def split: option.splits)
  moreover have "set filtered \<subseteq> set by_type"
    by (auto simp: filtered_def)
  ultimately have "set filtered \<subseteq> set by_mood" by blast
  then have "set (py_slice_to (shuffle filtered) lim) \<subseteq> set by_mood"
    using set_py_slice_to [of "shuffle filtered" lim] sh [of filtered] by blast
  moreover have "recommend shuffle catalog m media_type lim response_language
        = make_all (py_slice_to (shuffle filtered) lim)"
    unfolding recommend_def Let_def filtered_def by_type_def by_mood_def m'_def ..
  ultimately show ?thesis
    unfolding by_mood_def m'_def
    by (intro exI [of _ "py_slice_to (shuffle filtered) lim"] conjI impI length_py_slice_to)
       auto
qed

lemma make_all_moods:
  "make_all picks = Inr recs \<Longrightarrow>
   \<forall>item \<in> set picks. map_of item (ascii ''mood'') = Some m \<Longrightarrow>
   length recs = length picks \<and> (\<forall>r \<in> set recs. rec_mood r = m)"
proof (induction picks arbitrary: recs)
  case Nil
  then show ?case by simp
next
  case (Cons item picks)
  from Cons.prems(1) obtain r rs where r: "make_Recommendation item = Inr r"
    and rs: "make_all picks = Inr rs" and recs: "recs = r # rs"
    by (auto split: sum.splits)
  from Cons.prems(2) make_Recommendation_fields(1) [OF r] have "rec_mood r = m" by simp
  with Cons.IH [OF rs] Cons.prems(2) recs show ?case by simp
qed

lemma example_catalog_fields:
  "list_all (\<lambda>item. set (map fst item) = set Recommendation_fields) example_catalog"
  by (simp add: example_catalog_def Recommendation_fields_def)

text \<open>
  C7. For every mood string \<open>m\<close>, every catalog and every limit \<open>N \<ge> 0\<close>, what
  \<open>recommend\<close> returns has at most \<open>N\<close> items, and the mood of every returned item is
  \<open>m\<close> if \<open>m\<close> is one of the six supported moods and neutral otherwise. On a catalog
  whose items all have exactly the five fields of a recommendation the call does return.
  \<open>random.shuffle\<close> is any function that permutes its argument.
\<close>

theorem recommend_limit_and_mood:
  assumes "\<forall>xs. mset (shuffle xs) = mset xs" and "0 \<le> N"
  shows "(\<forall>recs. recommend shuffle catalog m media_type N response_language = Inr recs \<longrightarrow>
            length recs \<le> nat N
            \<and> (\<forall>r \<in> set recs.
                  rec_mood r = (if m \<in> SUPPORTED_MOODS then m else ascii ''neutral'')))
       \<and> ((\<forall>item \<in> set catalog. set (map fst item) = set Recommendation_fields) \<longrightarrow>
            (\<exists>recs. recommend shuffle catalog m media_type N response_language = Inr recs))"
proof -
  from recommend_as_make_all [OF assms(1), of catalog m media_type N response_language]
  obtain picks where
    eq: "recommend shuffle catalog m media_type N response_language = make_all picks"
    and sub: "set picks \<subseteq> {item \<in> set catalog. map_of item (ascii ''mood'')
                            = Some (if m \<in> SUPPORTED_MOODS then m else ascii ''neutral'')}"
    and len: "0 \<le> N \<longrightarrow> length picks \<le> nat N"
    by (elim exE conjE)
  from sub have moods: "\<forall>item \<in> set picks. map_of item (ascii ''mood'')
                            = Some (if m \<in> SUPPORTED_MOODS then m else ascii ''neutral'')"
    by blast
  have "length recs \<le> nat N
        \<and> (\<forall>r \<in> set recs. rec_mood r = (if m \<in> SUPPORTED_MOODS then m else ascii ''neutral''))"
    if "recommend shuffle catalog m media_type N response_language = Inr recs" for recs
  proof -
    from that eq have "make_all picks = Inr recs" by simp
    from make_all_moods [OF this moods] len assms(2) show ?thesis by simp
  qed
  moreover have "\<exists>recs. recommend shuffle catalog m media_type N response_language = Inr recs"
    if "\<forall>item \<in> set catalog. set (map fst item) = set Recommendation_fields"
  proof -
    from that sub have "\<forall>item \<in> set picks. set (map fst item) = set Recommendation_fields"
      by blast
    from make_all_total [OF this] eq show ?thesis by simp
  qed
  ultimately show ?thesis by blast
qed

theorem recommend_limit_and_mood_witness:
  "(\<forall>xs :: item list. mset (rev xs) = mset xs) \<and> (0 :: int) \<le> 1
   \<and> list_all (\<lambda>item. set (map fst item) = set Recommendation_fields) example_catalog
   \<and> (\<exists>recs. recommend rev example_catalog (ascii ''joy'') None 1 None = Inr recs
          \<and> length recs \<le> nat 1
          \<and> list_all (\<lambda>r. rec_mood r = ascii ''joy'') recs)"
proof -
  have perm: "\<forall>xs :: item list. mset (rev xs) = mset xs" by simp
  have lim: "(0 :: int) \<le> 1" by simp
  have fields: "\<forall>item \<in> set example_catalog. set (map fst item) = set Recommendation_fields"
    using example_catalog_fields by (simp add: list_all_iff)
  have joy: "ascii ''joy'' \<in> SUPPORTED_MOODS" by (simp add: SUPPORTED_MOODS_def)
  from recommend_limit_and_mood [OF perm lim, of example_catalog "ascii ''joy''" None None]
    fields joy
  have "\<exists>recs. recommend rev example_catalog (ascii ''joy'') None 1 None = Inr recs
          \<and> length recs \<le> nat 1 \<and> (\<forall>r \<in> set recs. rec_mood r = ascii ''joy'')"
    by (simp only: if_True) blast
  with perm lim example_catalog_fields show ?thesis
    by (simp only: list_all_iff) blast
qed

subsection \<open>Unsupported filter values\<close>

lemma recommend_media_type_filter:
  assumes "mt \<noteq> []"
  shows "recommend shuffle catalog m (Some mt) lim response_language
           = recommend shuffle
               (filter (\<lambda>item. map_of item (ascii ''type'') = Some mt) catalog)
               m None lim response_language"
  using assms by (simp add: recommend_def Let_def conj_commute)

lemma make_all_types:
  "make_all picks = Inr recs \<Longrightarrow>
   \<forall>item \<in> set picks. map_of item (ascii ''type'') = Some mt \<Longrightarrow>
   \<forall>r \<in> set recs. rec_type r = mt"
proof (induction picks arbitrary: recs)
  case Nil
  then show ?case by simp
next
  case (Cons item picks)
  from Cons.prems(1) obtain r rs where r: "make_Recommendation item = Inr r"
    and rs: "make_all picks = Inr rs" and recs: "recs = r # rs"
    by (auto split: sum.splits)
  from Cons.prems(2) make_Recommendation_fields(2) [OF r] have "rec_type r = mt" by simp
  with Cons.IH [OF rs] Cons.prems(2) recs show ?case by simp
qed

lemma recommend_media_type_applied:
  assumes perm: "\<forall>xs. mset (shuffle xs) = mset xs" and mt: "mt \<noteq> []"
    and ret: "recommend shuffle catalog m (Some mt) lim response_language = Inr recs"
  shows "\<forall>r \<in> set recs. rec_type r = mt"
proof -
  let ?typed = "filter (\<lambda>item. map_of item (ascii ''type'') = Some mt) catalog"
  from recommend_as_make_all [OF perm, of ?typed m None lim response_language]
  obtain picks where
    eq: "recommend shuffle ?typed m None lim response_language = make_all picks"
    and sub: "set picks \<subseteq> {item \<in> set ?typed. map_of item (ascii ''mood'')
                = Some (if m \<in> SUPPORTED_MOODS then m else ascii ''neutral'')}"
    by (elim exE conjE)
  from sub have types: "\<forall>item \<in> set picks. map_of item (ascii ''type'') = Some mt"
    by auto
  from ret eq have "make_all picks = Inr recs"
    by (simp add: recommend_media_type_filter [OF mt])
  from make_all_types [OF this types] show ?thesis .
qed

text \<open>
  Against C2 as it is stated: a media type outside song and movie is not coerced by
  \<open>recommend\<close>. It is applied as a filter like any other non-empty value, and here
  nothing passes it, while the call without the filter returns two items.
\<close>

theorem recommend_media_type_not_coerced:
  "ascii ''book'' \<notin> {ascii ''song'', ascii ''movie''}
   \<and> recommend id example_catalog (ascii ''joy'') (Some (ascii ''book'')) 6 None = Inr []
   \<and> recommend id example_catalog (ascii ''joy'') None 6 None \<noteq> Inr []"
  by code_simp

text \<open>
  C2, as the code has it. For every mood and every response language outside fa and en,
  \<open>recommend\<close> returns what it returns without a language filter, errors included, so no
  value is rejected. For the media type, \<open>recommend\<close> treats an absent and an empty
  value as no filter. Any other media type, also one outside song and movie, is applied
  as an exact-match filter on the item type: the call is the call without the filter on
  the catalog restricted to the items of that type, so every returned item has that type.
  The coercion of a media type outside song and movie to no filter is made by the
  \<open>/predict\<close> handler before it calls the pipeline.
\<close>

theorem recommend_unsupported_filters:
  "(response_language \<notin> {Some (ascii ''fa''), Some (ascii ''en'')} \<longrightarrow>
      recommend shuffle catalog m media_type lim response_language
        = recommend shuffle catalog m media_type lim None)
   \<and> recommend shuffle catalog m (Some []) lim response_language
        = recommend shuffle catalog m None lim response_language
   \<and> (mt \<noteq> [] \<longrightarrow>
        recommend shuffle catalog m (Some mt) lim response_language
          = recommend shuffle
              (filter (\<lambda>item. map_of item (ascii ''type'') = Some mt) catalog)
              m None lim response_language)
   \<and> ((\<forall>xs. mset (shuffle xs) = mset xs) \<and> mt \<noteq> []
        \<and> recommend shuffle catalog m (Some mt) lim response_language = Inr recs \<longrightarrow>
        (\<forall>r \<in> set recs. rec_type r = mt))
   \<and> (media_type \<notin> {Some (ascii ''song''), Some (ascii ''movie'')} \<longrightarrow>
        handler_call rt shuffle svc input_text media_type response_language
          = handler_call rt shuffle svc input_text None response_language)"
proof (intro conjI impI)
  show "recommend shuffle catalog m media_type lim response_language
          = recommend shuffle catalog m media_type lim None"
    if "response_language \<notin> {Some (ascii ''fa''), Some (ascii ''en'')}"
    using that by (simp add: recommend_def)
  show "recommend shuffle catalog m (Some []) lim response_language
          = recommend shuffle catalog m None lim response_language"
    by (simp add: recommend_def)
  show "recommend shuffle catalog m (Some mt) lim response_language
          = recommend shuffle
              (filter (\<lambda>item. map_of item (ascii ''type'') = Some mt) catalog)
              m None lim response_language" if "mt \<noteq> []"
    using that by (rule recommend_media_type_filter)
  show "\<forall>r \<in> set recs. rec_type r = mt"
    if "(\<forall>xs. mset (shuffle xs) = mset xs) \<and> mt \<noteq> []
        \<and> recommend shuffle catalog m (Some mt) lim response_language = Inr recs"
    using that recommend_media_type_applied [of shuffle mt catalog m lim response_language recs]
    by blast
  show "handler_call rt shuffle svc input_text media_type response_language
          = handler_call rt shuffle svc input_text None response_language"
    if "media_type \<notin> {Some (ascii ''song''), Some (ascii ''movie'')}"
    using that by (simp add: handler_call_def handler_media_type_def)
qed

lemma recommend_movie_example:
  "recommend id example_catalog (ascii ''joy'') (Some (ascii ''movie'')) 6 None
     = Inr [\<lparr>rec_title = ascii ''Inside Out'', rec_creator = ascii ''Pete Docter'',
              rec_type = ascii ''movie'', rec_mood = ascii ''joy'',
              rec_language = ascii ''en''\<rparr>]"
  by code_simp

theorem recommend_unsupported_filters_witness:
  "Some (ascii ''de'') \<notin> {Some (ascii ''fa''), Some (ascii ''en'')}
   \<and> recommend id example_catalog (ascii ''joy'') None 6 (Some (ascii ''de''))
        = recommend id example_catalog (ascii ''joy'') None 6 None
   \<and> recommend id example_catalog (ascii ''joy'') (Some []) 6 (Some (ascii ''de''))
        = recommend id example_catalog (ascii ''joy'') None 6 (Some (ascii ''de''))
   \<and> ascii ''book'' \<noteq> []
   \<and> recommend id example_catalog (ascii ''joy'') (Some (ascii ''book'')) 6 None
        = recommend id
            (filter (\<lambda>item. map_of item (ascii ''type'') = Some (ascii ''book''))
               example_catalog)
            (ascii ''joy'') None 6 None
   \<and> (\<forall>xs :: item list. mset (id xs) = mset xs) \<and> ascii ''movie'' \<noteq> []
   \<and> recommend id example_catalog (ascii ''joy'') (Some (ascii ''movie'')) 6 None
        = Inr [\<lparr>rec_title = ascii ''Inside Out'', rec_creator = ascii ''Pete Docter'',
                 rec_type = ascii ''movie'', rec_mood = ascii ''joy'',
                 rec_language = ascii ''en''\<rparr>]
   \<and> list_all (\<lambda>r. rec_type r = ascii ''movie'')
        [\<lparr>rec_title = ascii ''Inside Out'', rec_creator = ascii ''Pete Docter'',
          rec_type = ascii ''movie'', rec_mood = ascii ''joy'',
          rec_language = ascii ''en''\<rparr>]
   \<and> Some (ascii ''book'') \<notin> {Some (ascii ''song''), Some (ascii ''movie'')}
   \<and> handler_call plain_runtime id
        \<lparr>lang_detector = Map.empty, classifier = lexicon_only, recommender = example_catalog\<rparr>
        (ascii ''a good day'') (Some (ascii ''book'')) (Some (ascii ''de''))
      = handler_call plain_runtime id
          \<lparr>lang_detector = Map.empty, classifier = lexicon_only, recommender = example_catalog\<rparr>
          (ascii ''a good day'') None (Some (ascii ''de''))"
proof -
  let ?movie = "\<lparr>rec_title = ascii ''Inside Out'', rec_creator = ascii ''Pete Docter'',
                 rec_type = ascii ''movie'', rec_mood = ascii ''joy'',
                 rec_language = ascii ''en''\<rparr>"
  let ?svc = "\<lparr>lang_detector = Map.empty, classifier = lexicon_only,
               recommender = example_catalog\<rparr>"
  have de: "Some (ascii ''de'') \<notin> {Some (ascii ''fa''), Some (ascii ''en'')}" by simp
  have book: "ascii ''book'' \<noteq> []" by simp
  have movie: "ascii ''movie'' \<noteq> []" by simp
  have perm: "\<forall>xs :: item list. mset (id xs) = mset xs" by simp
  have outside: "Some (ascii ''book'') \<notin> {Some (ascii ''song''), Some (ascii ''movie'')}"
    by simp
  have lang: "recommend id example_catalog (ascii ''joy'') None 6 (Some (ascii ''de''))
        = recommend id example_catalog (ascii ''joy'') None 6 None"
    by (rule recommend_unsupported_filters
          [where response_language = "Some (ascii ''de'')" and media_type = None,
           THEN conjunct1, THEN mp, OF de])
  have empty: "recommend id example_catalog (ascii ''joy'') (Some []) 6 (Some (ascii ''de''))
        = recommend id example_catalog (ascii ''joy'') None 6 (Some (ascii ''de''))"
    by (rule recommend_unsupported_filters [THEN conjunct2, THEN conjunct1])
  have filter: "recommend id example_catalog (ascii ''joy'') (Some (ascii ''book'')) 6 None
        = recommend id
            (filter (\<lambda>item. map_of item (ascii ''type'') = Some (ascii ''book''))
               example_catalog)
            (ascii ''joy'') None 6 None"
    by (rule recommend_unsupported_filters
          [THEN conjunct2, THEN conjunct2, THEN conjunct1, THEN mp, OF book])
  have "\<forall>r \<in> set [?movie]. rec_type r = ascii ''movie''"
    by (rule recommend_unsupported_filters
          [where shuffle = id and catalog = example_catalog and m = "ascii ''joy''"
             and lim = 6 and response_language = None,
           THEN conjunct2, THEN conjunct2, THEN conjunct2, THEN conjunct1, THEN mp])
       (intro conjI perm movie recommend_movie_example)
  then have applied: "list_all (\<lambda>r. rec_type r = ascii ''movie'') [?movie]"
    by (simp only: list_all_iff)
  have handler: "handler_call plain_runtime id ?svc (ascii ''a good day'')
        (Some (ascii ''book'')) (Some (ascii ''de''))
      = handler_call plain_runtime id ?svc (ascii ''a good day'') None (Some (ascii ''de''))"
    by (rule recommend_unsupported_filters
          [THEN conjunct2, THEN conjunct2, THEN conjunct2, THEN conjunct2, THEN mp,
           OF outside])
  from de lang empty book filter perm movie recommend_movie_example applied outside handler
  show ?thesis by (intro conjI)
qed


section \<open>The service\<close>

lemma resolve_with_lexicon_mood:
  "fst (snd (resolve_with_lexicon a tm b lm)) \<in> {tm, lm}"
  by (simp add: resolve_with_lexicon_def)

lemma resolve_with_lexicon_source:
  "snd (snd (resolve_with_lexicon a tm b lm)) \<in> prediction_sources"
  by (simp add: resolve_with_lexicon_def prediction_sources_def)

lemma model_prediction_wf:
  assumes "model_prediction rt clf pipe cleaned lang ll lm = Some p" "lm \<in> SUPPORTED_MOODS"
  shows "mood p \<in> SUPPORTED_MOODS \<and> source p \<in> prediction_sources"
proof -
  from assms(1) obtain raw where
    p: "p = \<lparr>label = fst (resolve_with_lexicon (resolve_label rt clf raw lang)
                          (map_label_to_mood rt lang (resolve_label rt clf raw lang)) ll lm),
             mood = fst (snd (resolve_with_lexicon (resolve_label rt clf raw lang)
                          (map_label_to_mood rt lang (resolve_label rt clf raw lang)) ll lm)),
             source = snd (snd (resolve_with_lexicon (resolve_label rt clf raw lang)
                          (map_label_to_mood rt lang (resolve_label rt clf raw lang)) ll lm))\<rparr>"
    by (auto simp: model_prediction_def Let_def case_prod_unfold
             split: option.splits py_val.splits)
  have "mood p \<in> {map_label_to_mood rt lang (resolve_label rt clf raw lang), lm}"
    unfolding p using resolve_with_lexicon_mood by simp
  with assms(2) map_label_to_mood_supported have "mood p \<in> SUPPORTED_MOODS" by auto
  moreover have "source p \<in> prediction_sources"
    unfolding p using resolve_with_lexicon_source by simp
  ultimately show ?thesis ..
qed

lemma predict_wf:
  "\<exists>p. predict rt clf text lang = Inr p \<and> mood p \<in> SUPPORTED_MOODS
        \<and> source p \<in> prediction_sources"
proof (cases "py_strip text = []")
  case True
  then show ?thesis
    by (simp add: predict_def SUPPORTED_MOODS_def prediction_sources_def)
next
  case False
  from lexicon_label_total obtain ll where ll: "lexicon_label rt (py_strip text) lang = Inr ll"
    by blast
  let ?lm = "map_label_to_mood rt lang ll"
  let ?lex = "\<lparr>label = ll, mood = ?lm, source = ascii ''lexicon''\<rparr>"
  have lm: "?lm \<in> SUPPORTED_MOODS" by (rule map_label_to_mood_supported)
  have lex: "mood ?lex \<in> SUPPORTED_MOODS \<and> source ?lex \<in> prediction_sources"
    using lm by (simp add: prediction_sources_def)
  have "predict rt clf text lang = Inr ?lex
        \<or> (\<exists>pipe p. model_prediction rt clf pipe (py_strip text) lang ll ?lm = Some p
              \<and> predict rt clf text lang = Inr p)"
    using False ll by (auto simp: predict_def Let_def split: option.splits)
  then show ?thesis
    using lex model_prediction_wf [OF _ lm] by blast
qed

lemma detect_supported: "detect langdetect text \<in> supported"
  by (simp add: detect_def supported_def Let_def split: option.splits)

text \<open>
  Against C3 as it is stated: a catalog item that matches the mood but lacks fields of
  \<open>Recommendation\<close> makes the whole call raise \<open>TypeError\<close>. The blank text is
  predicted neutral, and the only item has mood neutral and nothing else.
\<close>

theorem analyze_and_recommend_malformed_item:
  "analyze_and_recommend plain_runtime id
     \<lparr>lang_detector = Map.empty, classifier = lexicon_only,
      recommender = [[(ascii ''mood'', ascii ''neutral'')]]\<rparr>
     [] None 6 None = Inl TypeError"
  by code_simp

text \<open>
  C3, as the code has it. For every text, media type, limit and response language, and
  every catalog whose items all have exactly the fields title, creator, type, mood and
  language, \<open>analyze_and_recommend\<close> returns a service result: its language is fa or en,
  its mood is one of the six moods and its source is one of the five sources.
  \<open>random.shuffle\<close> is any function that permutes its argument.
\<close>

theorem analyze_and_recommend_returns:
  assumes "\<forall>xs. mset (shuffle xs) = mset xs"
    and "\<forall>item \<in> set (recommender svc). set (map fst item) = set Recommendation_fields"
  shows "\<exists>res. analyze_and_recommend rt shuffle svc text media_type lim response_language = Inr res
      \<and> language res \<in> supported
      \<and> mood (prediction res) \<in> SUPPORTED_MOODS
      \<and> source (prediction res) \<in> prediction_sources"
proof -
  let ?lang = "detect (lang_detector svc) text"
  from predict_wf obtain p where p: "predict rt (classifier svc) text ?lang = Inr p"
    and wf: "mood p \<in> SUPPORTED_MOODS" "source p \<in> prediction_sources"
    by blast
  from recommend_as_make_all [OF assms(1), of "recommender svc" "mood p" media_type lim
      response_language]
  obtain picks where
    eq: "recommend shuffle (recommender svc) (mood p) media_type lim response_language
           = make_all picks"
    and sub: "set picks \<subseteq> {item \<in> set (recommender svc). map_of item (ascii ''mood'')
                = Some (if mood p \<in> SUPPORTED_MOODS then mood p else ascii ''neutral'')}"
    by (elim exE conjE)
  from sub assms(2) have "\<forall>item \<in> set picks. set (map fst item) = set Recommendation_fields"
    by blast
  from make_all_total [OF this] eq obtain recs where
    "recommend shuffle (recommender svc) (mood p) media_type lim response_language = Inr recs"
    by auto
  with p have "analyze_and_recommend rt shuffle svc text media_type lim response_language
      = Inr \<lparr>language = ?lang, prediction = p, recommendations = recs\<rparr>"
    by (simp add: analyze_and_recommend_def)
  with wf detect_supported [of "lang_detector svc" "text"] show ?thesis by simp
qed

theorem analyze_and_recommend_returns_witness:
  "(\<forall>xs :: item list. mset (id xs) = mset xs)
   \<and> list_all (\<lambda>item. set (map fst item) = set Recommendation_fields) example_catalog
   \<and> (\<exists>res. analyze_and_recommend plain_runtime id
               \<lparr>lang_detector = Map.empty, classifier = lexicon_only,
                recommender = example_catalog\<rparr>
               (ascii ''a good day'') None 6 None = Inr res
          \<and> language res \<in> supported
          \<and> mood (prediction res) \<in> SUPPORTED_MOODS
          \<and> source (prediction res) \<in> prediction_sources)"
proof -
  have perm: "\<forall>xs :: item list. mset (id xs) = mset xs" by simp
  have fields: "\<forall>item \<in> set (recommender
      \<lparr>lang_detector = Map.empty, classifier = lexicon_only, recommender = example_catalog\<rparr>).
        set (map fst item) = set Recommendation_fields"
    using example_catalog_fields by (simp add: list_all_iff)
  from analyze_and_recommend_returns [OF perm fields, of plain_runtime "ascii ''a good day''"
      None 6 None] perm example_catalog_fields
  show ?thesis by blast
qed

end
